theory Spec2Isabelle
  imports Main "HOL-Library.Word"
begin

section \<open>Go values the adapter works with\<close>

text \<open>
  Embedding of \<^verbatim>\<open>mqtt.go\<close> (package \<^verbatim>\<open>mqttconn\<close>).

  A Go \<^verbatim>\<open>byte\<close> is an 8-bit word. A Go \<^verbatim>\<open>int\<close> is a HOL integer; the only
  operation the adapter applies to one is the conversion \<^verbatim>\<open>byte(x)\<close>, which keeps the
  low eight bits whatever the platform's width of \<^verbatim>\<open>int\<close>.

  A \<^verbatim>\<open>time.Time\<close> is the number of nanoseconds since the zero instant (the value
  \<^verbatim>\<open>IsZero\<close> recognises); a \<^verbatim>\<open>time.Duration\<close> is a number of nanoseconds in
  the range of a signed 64-bit integer, and \<^verbatim>\<open>Time.Sub\<close> saturates at its ends.
\<close>

type_synonym byte = "8 word"
type_synonym Time = int
type_synonym Duration = int

definition byte_of_int :: "int \<Rightarrow> byte" where
  "byte_of_int x = word_of_int x"

definition IsZero :: "Time \<Rightarrow> bool" where
  "IsZero t \<longleftrightarrow> t = 0"

definition maxDuration :: Duration where
  "maxDuration = 2 ^ 63 - 1"

definition minDuration :: Duration where
  "minDuration = - (2 ^ 63)"

definition Sub :: "Time \<Rightarrow> Time \<Rightarrow> Duration" where
  "Sub t u = (let d = t - u in
     if d > maxDuration then maxDuration
     else if d < minDuration then minDuration
     else d)"

text \<open>
  The builtin \<^verbatim>\<open>copy(dst, src)\<close>: it overwrites the first
  \<^verbatim>\<open>min(len(dst), len(src))\<close> bytes of \<^verbatim>\<open>dst\<close> and returns that count.
  The destination is the caller's buffer, so the model returns its new contents as well.
\<close>

definition go_copy :: "byte list \<Rightarrow> byte list \<Rightarrow> int \<times> byte list" where
  "go_copy dst src = (let n = min (length dst) (length src) in
     (int n, take n src @ drop n dst))"

subsection \<open>Addresses\<close>

text \<open>
  \<^verbatim>\<open>net.Addr\<close> is an interface with the methods \<^verbatim>\<open>Network()\<close> and
  \<^verbatim>\<open>String()\<close>. \<^verbatim>\<open>TopicAddr\<close> is the implementation of this package; any other
  implementation is given by what its two methods return. A nil interface value is
  \<open>None\<close> of type \<open>Addr option\<close>.
\<close>

datatype Addr = TopicAddr string | OtherAddr string string

fun Network :: "Addr \<Rightarrow> string" where
  "Network (TopicAddr addr) = ''mqttTopic''"
| "Network (OtherAddr network rendered) = network"

fun String_addr :: "Addr \<Rightarrow> string" where
  "String_addr (TopicAddr addr) = addr"
| "String_addr (OtherAddr network rendered) = rendered"

subsection \<open>Errors\<close>

text \<open>
  \<^verbatim>\<open>errors.New(msg)\<close>, the package's own \<^verbatim>\<open>mqttError{isTimeout, err}\<close>, and an
  error reported by the messaging client's token, which the adapter passes on as it is.
\<close>

datatype go_error =
    errors_New string
  | mqttError bool go_error
  | TokenError string

text \<open>
  \<^verbatim>\<open>Timeout()\<close> is a method of \<^verbatim>\<open>*mqttError\<close> only: \<open>None\<close> where the error
  value has no such method.
\<close>

fun Timeout :: "go_error \<Rightarrow> bool option" where
  "Timeout (mqttError isTimeout err) = Some isTimeout"
| "Timeout (errors_New msg) = None"
| "Timeout (TokenError msg) = None"

fun Error_string :: "go_error \<Rightarrow> string" where
  "Error_string (mqttError isTimeout err) = Error_string err"
| "Error_string (errors_New msg) = msg"
| "Error_string (TokenError msg) = msg"

subsection \<open>The messaging client, its tokens and its messages\<close>

text \<open>
  The client (\<^verbatim>\<open>mqtt.Client\<close> of paho) is outside the package. Its state is the
  list of calls the adapter has made on it, oldest first; a call is appended when it is
  made, whatever becomes of it afterwards.
\<close>

datatype client_call =
    Publish string byte bool "byte list"
  | Subscribe string byte
  | Disconnect nat

record mqtt_Client =
  calls :: "client_call list"

definition Client_Publish ::
  "mqtt_Client \<Rightarrow> string \<Rightarrow> byte \<Rightarrow> bool \<Rightarrow> byte list \<Rightarrow> mqtt_Client" where
  "Client_Publish c topic qos retained payload =
     c\<lparr>calls := calls c @ [Publish topic qos retained payload]\<rparr>"

definition Client_Subscribe :: "mqtt_Client \<Rightarrow> string \<Rightarrow> byte \<Rightarrow> mqtt_Client" where
  "Client_Subscribe c topic qos = c\<lparr>calls := calls c @ [Subscribe topic qos]\<rparr>"

definition Client_Disconnect :: "mqtt_Client \<Rightarrow> nat \<Rightarrow> mqtt_Client" where
  "Client_Disconnect c quiesce = c\<lparr>calls := calls c @ [Disconnect quiesce]\<rparr>"

text \<open>
  The token \<^verbatim>\<open>Publish\<close> returns is an input of the model, given by what the adapter
  can observe of it: whether \<^verbatim>\<open>Wait()\<close> ever returns, what
  \<^verbatim>\<open>WaitTimeout(d)\<close> returns (true when the flow completed within \<open>d\<close>), and what
  \<^verbatim>\<open>Error()\<close> returns when the adapter asks after waiting.
\<close>

record Token =
  tk_Wait :: bool
  tk_WaitTimeout :: "Duration \<Rightarrow> bool"
  tk_Error :: "go_error option"

text \<open>Of an \<^verbatim>\<open>mqtt.Message\<close> the adapter reads the topic and the payload.\<close>

record Message =
  Topic :: string
  Payload :: "byte list"

subsection \<open>Channels\<close>

text \<open>
  A buffered channel: its queued values oldest first, its capacity, and whether it has
  been closed.
\<close>

record chan =
  ch_buf :: "Message list"
  ch_cap :: nat
  ch_closed :: bool

definition make_chan :: "nat \<Rightarrow> chan" where
  "make_chan n = \<lparr>ch_buf = [], ch_cap = n, ch_closed = False\<rparr>"

text \<open>
  How a call ends: it returns, it stays blocked, or it panics.
\<close>

datatype 'a run = Returns 'a | Blocks | Panics

text \<open>
  A receive that is ready takes the oldest queued value; on a closed and drained channel
  it yields the zero value (a nil \<^verbatim>\<open>mqtt.Message\<close>, \<open>None\<close>); on an open and empty
  channel it is not ready.
\<close>

definition chan_recv :: "chan \<Rightarrow> (Message option \<times> chan) option" where
  "chan_recv ch = (case ch_buf ch of
       msg # rest \<Rightarrow> Some (Some msg, ch\<lparr>ch_buf := rest\<rparr>)
     | [] \<Rightarrow> if ch_closed ch then Some (None, ch) else None)"

text \<open>
  A send panics on a closed channel, blocks on a full one and otherwise queues the value.
\<close>

definition chan_send :: "chan \<Rightarrow> Message \<Rightarrow> chan run" where
  "chan_send ch msg =
     (if ch_closed ch then Panics
      else if length (ch_buf ch) < ch_cap ch then Returns (ch\<lparr>ch_buf := ch_buf ch @ [msg]\<rparr>)
      else Blocks)"

definition chan_close :: "chan \<Rightarrow> chan run" where
  "chan_close ch = (if ch_closed ch then Panics else Returns (ch\<lparr>ch_closed := True\<rparr>))"

section \<open>The connection adapter\<close>

record MQTTConn =
  Client :: mqtt_Client
  defaultTopicSet :: bool
  defaultTopic :: string
  defaultQoS :: int
  readDeadline :: Time
  writeDeadline :: Time
  readChan :: chan

text \<open>
  \<^verbatim>\<open>Subscribe\<close> registers a callback with the client and returns nil. The callback,
  run by the client for each message it delivers, is \<open>deliver\<close>.
\<close>

definition MQTTConn_Subscribe :: "MQTTConn \<Rightarrow> string \<Rightarrow> int \<Rightarrow> go_error option \<times> MQTTConn" where
  "MQTTConn_Subscribe conn topic qos =
     (None, conn\<lparr>Client := Client_Subscribe (Client conn) topic (byte_of_int qos)\<rparr>)"

definition deliver :: "MQTTConn \<Rightarrow> Message \<Rightarrow> MQTTConn run" where
  "deliver conn msg = (case chan_send (readChan conn) msg of
       Returns ch \<Rightarrow> Returns (conn\<lparr>readChan := ch\<rparr>)
     | Blocks \<Rightarrow> Blocks
     | Panics \<Rightarrow> Panics)"

definition SetDefaultTopic :: "MQTTConn \<Rightarrow> string \<Rightarrow> MQTTConn" where
  "SetDefaultTopic conn topic = conn\<lparr>defaultTopic := topic, defaultTopicSet := True\<rparr>"

definition SetDefaultQoS :: "MQTTConn \<Rightarrow> int \<Rightarrow> MQTTConn" where
  "SetDefaultQoS conn qos = conn\<lparr>defaultQoS := qos\<rparr>"

text \<open>
  \<^verbatim>\<open>CreateMQTTConn\<close>: the struct literal sets the client and the channel; every other
  field has the zero value of its type.
\<close>

definition CreateMQTTConn :: "mqtt_Client \<Rightarrow> MQTTConn \<times> go_error option" where
  "CreateMQTTConn mqttClient =
     (let readChan = make_chan 2 in
      (\<lparr>Client = mqttClient,
        defaultTopicSet = False,
        defaultTopic = [],
        defaultQoS = 0,
        readDeadline = 0,
        writeDeadline = 0,
        readChan = readChan\<rparr>, None))"

text \<open>
  \<^verbatim>\<open>WriteTo\<close>. Inputs besides the receiver and the arguments: the clock reading of
  \<^verbatim>\<open>time.Now()\<close> and the token the client's \<^verbatim>\<open>Publish\<close> returns. The result is
  the pair \<^verbatim>\<open>(int, error)\<close> and the adapter afterwards.

  The last three lines of the function, after either wait:
\<close>

definition WriteTo_result ::
  "MQTTConn \<Rightarrow> byte list \<Rightarrow> Token \<Rightarrow> ((int \<times> go_error option) \<times> MQTTConn) run" where
  "WriteTo_result conn b token = (case tk_Error token of
       Some err \<Rightarrow> Returns ((0, Some err), conn)
     | None \<Rightarrow> Returns ((int (length b), None), conn))"

definition WriteTo ::
  "MQTTConn \<Rightarrow> byte list \<Rightarrow> Addr option \<Rightarrow> Time \<Rightarrow> Token
     \<Rightarrow> ((int \<times> go_error option) \<times> MQTTConn) run" where
  "WriteTo conn b addr now token = (case addr of
       None \<Rightarrow> Panics
     | Some a \<Rightarrow>
         if Network a \<noteq> Network (TopicAddr [])
         then Returns ((0, Some (errors_New ''unexpected net.Addr.Network() value'')), conn)
         else
           let conn' = conn\<lparr>Client :=
                 Client_Publish (Client conn) (String_addr a) (byte_of_int (defaultQoS conn)) False b\<rparr>
           in
             if IsZero (writeDeadline conn)
             then (if tk_Wait token then WriteTo_result conn' b token else Blocks)
             else
               let waitTime = Sub (writeDeadline conn) now in
                 if waitTime \<le> 0
                 then Returns ((0, Some (mqttError True (errors_New ''publish timed out''))), conn')
                 else
                   let ignored = tk_WaitTimeout token waitTime in
                     WriteTo_result conn' b token)"

definition Write ::
  "MQTTConn \<Rightarrow> byte list \<Rightarrow> Time \<Rightarrow> Token \<Rightarrow> ((int \<times> go_error option) \<times> MQTTConn) run" where
  "Write conn p now token = WriteTo conn p (Some (TopicAddr (defaultTopic conn))) now token"

text \<open>
  \<^verbatim>\<open>ReadFrom\<close>. Inputs besides the receiver and the buffer: the clock reading of
  \<^verbatim>\<open>time.Now()\<close> and the case of the \<^verbatim>\<open>select\<close> statement the runtime takes. A
  case that is not ready cannot be taken: the call stays blocked. The timer channel is
  ready only when a deadline is set (otherwise it is a channel nobody sends on). The
  result is the triple \<^verbatim>\<open>(n, addr, err)\<close>, the caller's buffer and the adapter
  afterwards.
\<close>

datatype select_case = RecvCase | TimeoutCase

definition ReadFrom ::
  "MQTTConn \<Rightarrow> byte list \<Rightarrow> Time \<Rightarrow> select_case
     \<Rightarrow> ((int \<times> Addr option \<times> go_error option) \<times> byte list \<times> MQTTConn) run" where
  "ReadFrom conn p now sel =
     (if \<not> IsZero (readDeadline conn) \<and> Sub (readDeadline conn) now \<le> 0
      then Returns ((0, None, Some (mqttError True (errors_New ''read timed out''))), p, conn)
      else (case sel of
          RecvCase \<Rightarrow> (case chan_recv (readChan conn) of
              None \<Rightarrow> Blocks
            | Some (None, ch) \<Rightarrow> Panics
            | Some (Some msg, ch) \<Rightarrow>
                (case go_copy p (Payload msg) of (copiedCount, p') \<Rightarrow>
                   Returns ((copiedCount, Some (TopicAddr (Topic msg)), None),
                            p', conn\<lparr>readChan := ch\<rparr>)))
        | TimeoutCase \<Rightarrow>
            if IsZero (readDeadline conn) then Blocks
            else Returns ((0, None, Some (mqttError True (errors_New ''read timed out''))),
                          p, conn)))"

definition Read ::
  "MQTTConn \<Rightarrow> byte list \<Rightarrow> Time \<Rightarrow> select_case
     \<Rightarrow> ((int \<times> go_error option) \<times> byte list \<times> MQTTConn) run" where
  "Read conn p now sel = (case ReadFrom conn p now sel of
       Returns ((n, addr, err), p', conn') \<Rightarrow> Returns ((n, err), p', conn')
     | Blocks \<Rightarrow> Blocks
     | Panics \<Rightarrow> Panics)"

definition SetDeadline :: "MQTTConn \<Rightarrow> Time \<Rightarrow> go_error option \<times> MQTTConn" where
  "SetDeadline conn t = (None, conn\<lparr>readDeadline := t, writeDeadline := t\<rparr>)"

definition SetReadDeadline :: "MQTTConn \<Rightarrow> Time \<Rightarrow> go_error option \<times> MQTTConn" where
  "SetReadDeadline conn t = (None, conn\<lparr>readDeadline := t\<rparr>)"

definition SetWriteDeadline :: "MQTTConn \<Rightarrow> Time \<Rightarrow> go_error option \<times> MQTTConn" where
  "SetWriteDeadline conn t = (None, conn\<lparr>writeDeadline := t\<rparr>)"

definition LocalAddr :: "MQTTConn \<Rightarrow> Addr" where
  "LocalAddr conn = TopicAddr []"

definition RemoteAddr :: "MQTTConn \<Rightarrow> Addr" where
  "RemoteAddr conn = TopicAddr (defaultTopic conn)"

definition Close :: "MQTTConn \<Rightarrow> (go_error option \<times> MQTTConn) run" where
  "Close conn = (case chan_close (readChan conn) of
       Returns ch \<Rightarrow>
         Returns (None, conn\<lparr>readChan := ch, Client := Client_Disconnect (Client conn) 100\<rparr>)
     | Blocks \<Rightarrow> Blocks
     | Panics \<Rightarrow> Panics)"

section \<open>Concrete adapter states\<close>

text \<open>
  States, tokens and a message on which the functions above are evaluated below. The
  fresh adapter wraps a client on which no call has been made yet; the others are
  reached from it through the adapter's own setters.
\<close>

definition fresh_conn :: MQTTConn where
  "fresh_conn = fst (CreateMQTTConn \<lparr>calls = []\<rparr>)"

definition token_done :: Token where
  "token_done = \<lparr>tk_Wait = True, tk_WaitTimeout = (\<lambda>d. True), tk_Error = None\<rparr>"

definition token_pending :: Token where
  "token_pending = \<lparr>tk_Wait = False, tk_WaitTimeout = (\<lambda>d. False), tk_Error = None\<rparr>"

definition conn_write_deadline_5 :: MQTTConn where
  "conn_write_deadline_5 = snd (SetWriteDeadline fresh_conn 5)"

definition conn_write_deadline_1s :: MQTTConn where
  "conn_write_deadline_1s = snd (SetWriteDeadline fresh_conn 1000000010)"

definition conn_qos_256 :: MQTTConn where
  "conn_qos_256 = SetDefaultQoS fresh_conn 256"

definition conn_qos_2 :: MQTTConn where
  "conn_qos_2 = SetDefaultQoS fresh_conn 2"

definition conn_default_topic :: MQTTConn where
  "conn_default_topic = SetDefaultTopic fresh_conn ''sensors/temp''"

definition msg8 :: Message where
  "msg8 = \<lparr>Topic = ''sensors/temp'', Payload = [1, 2, 3, 4, 5, 6, 7, 8]\<rparr>"

definition conn_pending_msg :: MQTTConn where
  "conn_pending_msg = fresh_conn\<lparr>readChan := (readChan fresh_conn)\<lparr>ch_buf := [msg8]\<rparr>\<rparr>"

definition conn_read_deadline_5 :: MQTTConn where
  "conn_read_deadline_5 = snd (SetReadDeadline conn_pending_msg 5)"

definition conn_read_deadline_50 :: MQTTConn where
  "conn_read_deadline_50 = snd (SetReadDeadline conn_pending_msg 50)"

section \<open>Auxiliary facts\<close>

text \<open>Saturation keeps the sign: the remaining time is non-positive exactly when the
  deadline is not after the clock reading.\<close>

lemma Sub_le_0_iff: "Sub t u \<le> 0 \<longleftrightarrow> t \<le> u"
  by (auto simp: Sub_def Let_def maxDuration_def minDuration_def)

lemma byte_of_int_uint: "uint (byte_of_int x) = x mod 256"
  by (simp add: byte_of_int_def uint_word_of_int)

lemma fresh_conn_simp:
  "fresh_conn = \<lparr>Client = \<lparr>calls = []\<rparr>, defaultTopicSet = False, defaultTopic = [],
      defaultQoS = 0, readDeadline = 0, writeDeadline = 0,
      readChan = \<lparr>ch_buf = [], ch_cap = 2, ch_closed = False\<rparr>\<rparr>"
  by (simp add: fresh_conn_def CreateMQTTConn_def make_chan_def)

subsection \<open>The four ways through \<^verbatim>\<open>WriteTo\<close>\<close>

lemma WriteTo_mismatch:
  "Network a \<noteq> ''mqttTopic'' \<Longrightarrow>
   WriteTo conn b (Some a) now token =
     Returns ((0, Some (errors_New ''unexpected net.Addr.Network() value'')), conn)"
  by (simp add: WriteTo_def)

lemma WriteTo_no_deadline:
  "Network a = ''mqttTopic'' \<Longrightarrow> IsZero (writeDeadline conn) \<Longrightarrow>
   WriteTo conn b (Some a) now token =
     (if tk_Wait token
      then WriteTo_result (conn\<lparr>Client := Client_Publish (Client conn) (String_addr a)
             (byte_of_int (defaultQoS conn)) False b\<rparr>) b token
      else Blocks)"
  by (simp add: WriteTo_def Let_def)

lemma WriteTo_elapsed:
  "Network a = ''mqttTopic'' \<Longrightarrow> \<not> IsZero (writeDeadline conn) \<Longrightarrow>
   writeDeadline conn \<le> now \<Longrightarrow>
   WriteTo conn b (Some a) now token =
     Returns ((0, Some (mqttError True (errors_New ''publish timed out''))),
              conn\<lparr>Client := Client_Publish (Client conn) (String_addr a)
                (byte_of_int (defaultQoS conn)) False b\<rparr>)"
  by (simp add: WriteTo_def Let_def Sub_le_0_iff)

lemma WriteTo_bounded_wait:
  "Network a = ''mqttTopic'' \<Longrightarrow> \<not> IsZero (writeDeadline conn) \<Longrightarrow>
   now < writeDeadline conn \<Longrightarrow>
   WriteTo conn b (Some a) now token =
     WriteTo_result (conn\<lparr>Client := Client_Publish (Client conn) (String_addr a)
       (byte_of_int (defaultQoS conn)) False b\<rparr>) b token"
  by (simp add: WriteTo_def Let_def Sub_le_0_iff)

lemma WriteTo_result_success:
  "WriteTo_result c b token = Returns ((n, None), c') \<Longrightarrow> c' = c \<and> n = int (length b)"
  by (auto simp: WriteTo_result_def split: option.splits)

text \<open>
  The bounded wait expires (\<^verbatim>\<open>WaitTimeout\<close> returns false) and the token holds no
  error: the result of \<^verbatim>\<open>WaitTimeout\<close> is dropped, so the call reports a complete
  write.
\<close>

lemma WriteTo_wait_expired:
  assumes "Network a = ''mqttTopic''"
    and "\<not> IsZero (writeDeadline conn)"
    and "now < writeDeadline conn"
    and "\<not> tk_WaitTimeout token (Sub (writeDeadline conn) now)"
    and "tk_Error token = None"
  shows "WriteTo conn b (Some a) now token =
     Returns ((int (length b), None),
              conn\<lparr>Client := Client_Publish (Client conn) (String_addr a)
                 (byte_of_int (defaultQoS conn)) False b\<rparr>)"
  using assms(5) by (simp add: WriteTo_bounded_wait [OF assms(1-3)] WriteTo_result_def)

subsection \<open>The three ways through \<^verbatim>\<open>ReadFrom\<close>\<close>

lemma ReadFrom_elapsed:
  "\<not> IsZero (readDeadline conn) \<Longrightarrow> readDeadline conn \<le> now \<Longrightarrow>
   ReadFrom conn p now sel =
     Returns ((0, None, Some (mqttError True (errors_New ''read timed out''))), p, conn)"
  by (simp add: ReadFrom_def Sub_le_0_iff)

lemma ReadFrom_RecvCase:
  "IsZero (readDeadline conn) \<or> now < readDeadline conn \<Longrightarrow>
   ReadFrom conn p now RecvCase = (case chan_recv (readChan conn) of
       None \<Rightarrow> Blocks
     | Some (None, ch) \<Rightarrow> Panics
     | Some (Some msg, ch) \<Rightarrow>
         Returns ((fst (go_copy p (Payload msg)), Some (TopicAddr (Topic msg)), None),
                  snd (go_copy p (Payload msg)), conn\<lparr>readChan := ch\<rparr>))"
  by (auto simp: ReadFrom_def Sub_le_0_iff split: option.splits prod.splits)

lemma ReadFrom_TimeoutCase:
  "IsZero (readDeadline conn) \<or> now < readDeadline conn \<Longrightarrow>
   ReadFrom conn p now TimeoutCase =
     (if IsZero (readDeadline conn) then Blocks
      else Returns ((0, None, Some (mqttError True (errors_New ''read timed out''))), p, conn))"
  by (auto simp: ReadFrom_def Sub_le_0_iff)

section \<open>Writing\<close>

text \<open>
  Claim C1, as the specification states it: with a write deadline strictly in the past,
  \<^verbatim>\<open>WriteTo\<close> fails at once with a timeout error and does not attempt the publish.
  The second half does not hold: \<^verbatim>\<open>Publish\<close> is called before the deadline is
  looked at. On a fresh adapter with write deadline 5, at clock reading 10, the call
  returns the timeout error and the client has received the publish.
\<close>

theorem C1_past_deadline_publishes_counterexample:
  "WriteTo conn_write_deadline_5 [1] (Some (TopicAddr ''t'')) 10 token_done =
     Returns ((0, Some (mqttError True (errors_New ''publish timed out''))),
              conn_write_deadline_5\<lparr>Client := \<lparr>calls = [Publish ''t'' 0 False [1]]\<rparr>\<rparr>)
   \<and> calls (Client conn_write_deadline_5) = []"
  by (simp add: WriteTo_def conn_write_deadline_5_def SetWriteDeadline_def fresh_conn_simp
      IsZero_def Sub_le_0_iff Client_Publish_def byte_of_int_def)

text \<open>
  Claim C1, amended: for every payload, every destination of the adapter's address family
  and every write deadline that is set and strictly in the past at the time of the call,
  \<^verbatim>\<open>WriteTo\<close> returns zero bytes and a timeout error (its is-timeout marker is true)
  whatever the token would do, so without waiting; by then the publish has been issued
  once, to the destination's topic.
\<close>

theorem C1_past_deadline_timeout_after_publish:
  assumes "Network a = ''mqttTopic''"
    and "\<not> IsZero (writeDeadline conn)"
    and "writeDeadline conn < now"
  shows "WriteTo conn b (Some a) now token =
     Returns ((0, Some (mqttError True (errors_New ''publish timed out''))),
              conn\<lparr>Client := (Client conn)\<lparr>calls := calls (Client conn) @
                 [Publish (String_addr a) (byte_of_int (defaultQoS conn)) False b]\<rparr>\<rparr>)
   \<and> Timeout (mqttError True (errors_New ''publish timed out'')) = Some True"
  using assms by (simp add: WriteTo_def Sub_le_0_iff Client_Publish_def Let_def)

theorem C1_past_deadline_timeout_after_publish_witness:
  "Network (TopicAddr ''t'') = ''mqttTopic''
   \<and> \<not> IsZero (writeDeadline conn_write_deadline_5)
   \<and> writeDeadline conn_write_deadline_5 < 10
   \<and> WriteTo conn_write_deadline_5 [1] (Some (TopicAddr ''t'')) 10 token_pending =
     Returns ((0, Some (mqttError True (errors_New ''publish timed out''))),
              conn_write_deadline_5\<lparr>Client := \<lparr>calls = [Publish ''t'' 0 False [1]]\<rparr>\<rparr>)"
proof -
  have a: "Network (TopicAddr ''t'') = ''mqttTopic''" by simp
  have z: "\<not> IsZero (writeDeadline conn_write_deadline_5)"
    by (simp add: conn_write_deadline_5_def SetWriteDeadline_def IsZero_def)
  have p: "writeDeadline conn_write_deadline_5 < 10"
    by (simp add: conn_write_deadline_5_def SetWriteDeadline_def)
  show ?thesis
    using a z p C1_past_deadline_timeout_after_publish [OF a z p, of "[1]" token_pending]
    by (simp add: conn_write_deadline_5_def SetWriteDeadline_def fresh_conn_simp byte_of_int_def)
qed

text \<open>
  Claim C2 says that a bounded wait which expires, with no error held by the token, makes
  \<^verbatim>\<open>WriteTo\<close> fail with a timeout error. The function drops what
  \<^verbatim>\<open>WaitTimeout\<close> returns and goes on to \<^verbatim>\<open>token.Error()\<close>: with the
  write deadline one second after the clock reading and a token that does not complete in
  that time, the call returns two bytes written and no error.
\<close>

theorem C2_wait_expired_returns_success:
  "\<not> tk_WaitTimeout token_pending (Sub (writeDeadline conn_write_deadline_1s) 10)
   \<and> tk_Error token_pending = None
   \<and> WriteTo conn_write_deadline_1s [104, 105] (Some (TopicAddr ''t'')) 10 token_pending =
     Returns ((2, None),
              conn_write_deadline_1s\<lparr>Client := \<lparr>calls = [Publish ''t'' 0 False [104, 105]]\<rparr>\<rparr>)"
proof -
  have a: "Network (TopicAddr ''t'') = ''mqttTopic''" by simp
  have z: "\<not> IsZero (writeDeadline conn_write_deadline_1s)"
    by (simp add: conn_write_deadline_1s_def SetWriteDeadline_def IsZero_def)
  have f: "10 < writeDeadline conn_write_deadline_1s"
    by (simp add: conn_write_deadline_1s_def SetWriteDeadline_def)
  have w: "\<not> tk_WaitTimeout token_pending (Sub (writeDeadline conn_write_deadline_1s) 10)"
    by (simp add: token_pending_def)
  have e: "tk_Error token_pending = None"
    by (simp add: token_pending_def)
  show ?thesis
    using w e WriteTo_wait_expired [OF a z f w e, of "[104, 105]"]
    by (simp add: conn_write_deadline_1s_def SetWriteDeadline_def fresh_conn_simp
        Client_Publish_def byte_of_int_def)
qed

text \<open>
  Claim C4: for every adapter whose default destination has been set to \<open>D\<close>,
  \<^verbatim>\<open>Write(p)\<close> returns what \<^verbatim>\<open>WriteTo(p, TopicAddr(D))\<close> returns and leaves
  the adapter and the client as that call leaves them.
\<close>

theorem C4_Write_is_WriteTo_default:
  assumes "defaultTopicSet conn"
    and "defaultTopic conn = D"
  shows "Write conn p now token = WriteTo conn p (Some (TopicAddr D)) now token"
  using assms by (simp add: Write_def)

theorem C4_Write_is_WriteTo_default_witness:
  "defaultTopicSet conn_default_topic
   \<and> defaultTopic conn_default_topic = ''sensors/temp''
   \<and> Write conn_default_topic [50, 49] 7 token_done =
       WriteTo conn_default_topic [50, 49] (Some (TopicAddr ''sensors/temp'')) 7 token_done
   \<and> Write conn_default_topic [50, 49] 7 token_done =
       Returns ((2, None), conn_default_topic\<lparr>Client :=
          \<lparr>calls = [Publish ''sensors/temp'' 0 False [50, 49]]\<rparr>\<rparr>)"
proof -
  have s: "defaultTopicSet conn_default_topic"
    by (simp add: conn_default_topic_def SetDefaultTopic_def)
  have d: "defaultTopic conn_default_topic = ''sensors/temp''"
    by (simp add: conn_default_topic_def SetDefaultTopic_def)
  have w: "WriteTo conn_default_topic [50, 49] (Some (TopicAddr ''sensors/temp'')) 7 token_done =
       Returns ((2, None), conn_default_topic\<lparr>Client :=
          \<lparr>calls = [Publish ''sensors/temp'' 0 False [50, 49]]\<rparr>\<rparr>)"
    by (simp add: WriteTo_def WriteTo_result_def conn_default_topic_def SetDefaultTopic_def
        fresh_conn_simp token_done_def IsZero_def Client_Publish_def byte_of_int_def)
  show ?thesis
    using s d w C4_Write_is_WriteTo_default [OF s d, of "[50, 49]" 7 token_done] by simp
qed

text \<open>
  Claim C6: for every destination whose \<^verbatim>\<open>Network()\<close> is not \<^verbatim>\<open>"mqttTopic"\<close>,
  \<^verbatim>\<open>WriteTo\<close> returns zero bytes and the address-type error, and the adapter with its
  client is what it was: no call has been made on the client.
\<close>

theorem C6_WriteTo_wrong_family:
  assumes "Network a \<noteq> ''mqttTopic''"
  shows "WriteTo conn b (Some a) now token =
     Returns ((0, Some (errors_New ''unexpected net.Addr.Network() value'')), conn)"
  using assms by (simp add: WriteTo_def)

theorem C6_WriteTo_wrong_family_witness:
  "Network (OtherAddr ''udp'' ''10.0.0.1:53'') \<noteq> ''mqttTopic''
   \<and> WriteTo fresh_conn [1, 2] (Some (OtherAddr ''udp'' ''10.0.0.1:53'')) 10 token_done =
       Returns ((0, Some (errors_New ''unexpected net.Addr.Network() value'')), fresh_conn)
   \<and> calls (Client fresh_conn) = []"
proof -
  have n: "Network (OtherAddr ''udp'' ''10.0.0.1:53'') \<noteq> ''mqttTopic''" by simp
  show ?thesis
    using n C6_WriteTo_wrong_family [OF n, of fresh_conn "[1, 2]" 10 token_done]
    by (simp add: fresh_conn_simp)
qed

text \<open>
  Claim C7, as the specification states it: a successful \<^verbatim>\<open>WriteTo\<close> publishes at
  the adapter's current \<^verbatim>\<open>defaultQoS\<close>. The level handed to the client is
  \<^verbatim>\<open>byte(conn.defaultQoS)\<close>: after \<^verbatim>\<open>SetDefaultQoS(256)\<close> a successful write
  publishes at level 0.
\<close>

theorem C7_qos_256_published_as_0_counterexample:
  "WriteTo conn_qos_256 [1] (Some (TopicAddr ''t'')) 10 token_done =
     Returns ((1, None), conn_qos_256\<lparr>Client := \<lparr>calls = [Publish ''t'' 0 False [1]]\<rparr>\<rparr>)
   \<and> defaultQoS conn_qos_256 = 256
   \<and> uint (0 :: byte) \<noteq> defaultQoS conn_qos_256"
  by (simp add: WriteTo_def WriteTo_result_def conn_qos_256_def SetDefaultQoS_def
      fresh_conn_simp token_done_def IsZero_def Client_Publish_def byte_of_int_def)

text \<open>
  Claim C7, amended: whenever \<^verbatim>\<open>WriteTo\<close> returns without an error, the destination
  is of the adapter's family, exactly one call has been added to the client, a publish of
  the payload to the destination's topic with the retain flag false at the level
  \<^verbatim>\<open>byte(defaultQoS)\<close>, that is \<open>defaultQoS mod 256\<close> (the default level itself when
  it lies between 0 and 255), nothing else of the adapter has changed, and the count
  returned is the length of the payload.
\<close>

theorem C7_WriteTo_success_publishes:
  assumes "WriteTo conn b (Some a) now token = Returns ((n, None), conn')"
  shows "Network a = ''mqttTopic''
   \<and> conn' = conn\<lparr>Client := (Client conn)\<lparr>calls := calls (Client conn) @
        [Publish (String_addr a) (byte_of_int (defaultQoS conn)) False b]\<rparr>\<rparr>
   \<and> uint (byte_of_int (defaultQoS conn)) = defaultQoS conn mod 256
   \<and> n = int (length b)"
proof -
  have family: "Network a = ''mqttTopic''"
  proof (rule ccontr)
    assume "Network a \<noteq> ''mqttTopic''"
    from WriteTo_mismatch [OF this] assms show False by simp
  qed
  let ?c = "conn\<lparr>Client := Client_Publish (Client conn) (String_addr a)
              (byte_of_int (defaultQoS conn)) False b\<rparr>"
  have res: "WriteTo_result ?c b token = Returns ((n, None), conn')"
  proof (cases "IsZero (writeDeadline conn)")
    case True
    from WriteTo_no_deadline [OF family True] assms show ?thesis
      by (simp split: if_splits)
  next
    case False
    show ?thesis
    proof (cases "writeDeadline conn \<le> now")
      case True
      from WriteTo_elapsed [OF family False True] assms show ?thesis by simp
    next
      case False
      then have "now < writeDeadline conn" by simp
      from WriteTo_bounded_wait [OF family \<open>\<not> IsZero (writeDeadline conn)\<close> this] assms
      show ?thesis by simp
    qed
  qed
  from WriteTo_result_success [OF res] have "conn' = ?c" and len: "n = int (length b)"
    by simp_all
  then have "conn' = conn\<lparr>Client := (Client conn)\<lparr>calls := calls (Client conn) @
        [Publish (String_addr a) (byte_of_int (defaultQoS conn)) False b]\<rparr>\<rparr>"
    by (simp add: Client_Publish_def)
  with family len show ?thesis by (simp add: byte_of_int_uint)
qed

theorem C7_WriteTo_success_publishes_witness:
  "WriteTo conn_qos_2 [7, 8, 9] (Some (TopicAddr ''other/topic'')) 10 token_done =
     Returns ((3, None),
              conn_qos_2\<lparr>Client := \<lparr>calls = [Publish ''other/topic'' 2 False [7, 8, 9]]\<rparr>\<rparr>)
   \<and> defaultQoS conn_qos_2 = 2
   \<and> uint (byte_of_int (defaultQoS conn_qos_2)) = defaultQoS conn_qos_2 mod 256
   \<and> (3 :: int) = int (length [7 :: byte, 8, 9])"
proof -
  have w: "WriteTo conn_qos_2 [7, 8, 9] (Some (TopicAddr ''other/topic'')) 10 token_done =
     Returns ((3, None),
              conn_qos_2\<lparr>Client := \<lparr>calls = [Publish ''other/topic'' 2 False [7, 8, 9]]\<rparr>\<rparr>)"
    by (simp add: WriteTo_def WriteTo_result_def conn_qos_2_def SetDefaultQoS_def
        fresh_conn_simp token_done_def IsZero_def Client_Publish_def byte_of_int_def)
  have q: "defaultQoS conn_qos_2 = 2"
    by (simp add: conn_qos_2_def SetDefaultQoS_def)
  from C7_WriteTo_success_publishes [OF w]
  have "uint (byte_of_int (defaultQoS conn_qos_2)) = defaultQoS conn_qos_2 mod 256"
    and "(3 :: int) = int (length [7 :: byte, 8, 9])"
    by blast+
  with w q show ?thesis by blast
qed

section \<open>Reading\<close>

text \<open>
  Claim C3: for every read deadline that is set and strictly in the past at the time of
  the call, \<^verbatim>\<open>ReadFrom\<close> returns zero bytes, no address and a timeout error,
  whichever case of the select would have been ready; the buffer and the adapter, its
  queue of messages included, are what they were before the call.
\<close>

theorem C3_ReadFrom_past_deadline:
  assumes "\<not> IsZero (readDeadline conn)"
    and "readDeadline conn < now"
  shows "ReadFrom conn p now sel =
     Returns ((0, None, Some (mqttError True (errors_New ''read timed out''))), p, conn)
   \<and> Timeout (mqttError True (errors_New ''read timed out'')) = Some True"
  using assms by (simp add: ReadFrom_def Sub_le_0_iff)

theorem C3_ReadFrom_past_deadline_witness:
  "\<not> IsZero (readDeadline conn_read_deadline_5)
   \<and> readDeadline conn_read_deadline_5 < 10
   \<and> ReadFrom conn_read_deadline_5 [0, 0, 0, 0] 10 RecvCase =
       Returns ((0, None, Some (mqttError True (errors_New ''read timed out''))),
                [0, 0, 0, 0], conn_read_deadline_5)
   \<and> ch_buf (readChan conn_read_deadline_5) = [msg8]"
proof -
  have z: "\<not> IsZero (readDeadline conn_read_deadline_5)"
    by (simp add: conn_read_deadline_5_def SetReadDeadline_def IsZero_def)
  have p: "readDeadline conn_read_deadline_5 < 10"
    by (simp add: conn_read_deadline_5_def SetReadDeadline_def)
  have q: "ch_buf (readChan conn_read_deadline_5) = [msg8]"
    by (simp add: conn_read_deadline_5_def SetReadDeadline_def conn_pending_msg_def)
  show ?thesis
    using z p q C3_ReadFrom_past_deadline [OF z p, of "[0, 0, 0, 0]" RecvCase] by simp
qed

text \<open>
  Claim C5: for every buffer \<open>p\<close> and every message at the head of the queue, when
  \<^verbatim>\<open>ReadFrom\<close> takes the receive case (no read deadline, or one still ahead) it
  returns the count \<open>min (length p) (length payload)\<close>, the message's topic as a
  \<^verbatim>\<open>TopicAddr\<close> and no error, also when the payload is longer than the buffer; the
  buffer then starts with that many bytes of the payload and keeps the rest of its old
  contents, and the message has left the queue.
\<close>

theorem C5_ReadFrom_copies_min:
  assumes "IsZero (readDeadline conn) \<or> now < readDeadline conn"
    and "ch_buf (readChan conn) = msg # rest"
  shows "ReadFrom conn p now RecvCase =
     Returns ((int (min (length p) (length (Payload msg))), Some (TopicAddr (Topic msg)), None),
              take (min (length p) (length (Payload msg))) (Payload msg)
                @ drop (min (length p) (length (Payload msg))) p,
              conn\<lparr>readChan := (readChan conn)\<lparr>ch_buf := rest\<rparr>\<rparr>)"
  using assms(2)
  by (simp add: ReadFrom_RecvCase [OF assms(1)] chan_recv_def go_copy_def Let_def)

theorem C5_ReadFrom_copies_min_witness:
  "(IsZero (readDeadline conn_pending_msg) \<or> 10 < readDeadline conn_pending_msg)
   \<and> ch_buf (readChan conn_pending_msg) = msg8 # []
   \<and> length (Payload msg8) = 8
   \<and> ReadFrom conn_pending_msg [0, 0, 0, 0] 10 RecvCase =
       Returns ((4, Some (TopicAddr ''sensors/temp''), None), [1, 2, 3, 4], fresh_conn)"
proof -
  have z: "IsZero (readDeadline conn_pending_msg) \<or> 10 < readDeadline conn_pending_msg"
    by (simp add: conn_pending_msg_def fresh_conn_simp IsZero_def)
  have q: "ch_buf (readChan conn_pending_msg) = msg8 # []"
    by (simp add: conn_pending_msg_def)
  have r: "conn_pending_msg\<lparr>readChan := (readChan conn_pending_msg)\<lparr>ch_buf := []\<rparr>\<rparr> = fresh_conn"
    by (simp add: conn_pending_msg_def fresh_conn_simp)
  show ?thesis
    using z q C5_ReadFrom_copies_min [OF z q, of "[0, 0, 0, 0]"]
    by (simp add: r) (simp add: msg8_def)
qed

text \<open>
  Claim C10: whenever \<^verbatim>\<open>ReadFrom\<close> returns an error whose is-timeout marker is true
  (the deadline had passed on entry, or the timer case was taken), the count is zero and
  the address is nil, not a \<^verbatim>\<open>TopicAddr\<close> of the empty topic; the buffer and the
  adapter are unchanged.
\<close>

theorem C10_ReadFrom_timeout_result:
  assumes "ReadFrom conn p now sel = Returns ((n, addr, Some err), p', conn')"
    and "Timeout err = Some True"
  shows "n = 0 \<and> addr = None \<and> p' = p \<and> conn' = conn
   \<and> err = mqttError True (errors_New ''read timed out'')"
proof (cases "\<not> IsZero (readDeadline conn) \<and> readDeadline conn \<le> now")
  case True
  with assms(1) show ?thesis by (simp add: ReadFrom_elapsed)
next
  case False
  then have open_or_future: "IsZero (readDeadline conn) \<or> now < readDeadline conn" by auto
  show ?thesis
  proof (cases sel)
    case RecvCase
    with assms(1) show ?thesis
      by (simp add: ReadFrom_RecvCase [OF open_or_future] split: option.splits prod.splits)
  next
    case TimeoutCase
    with assms(1) show ?thesis
      by (simp add: ReadFrom_TimeoutCase [OF open_or_future] split: if_splits)
  qed
qed

theorem C10_ReadFrom_timeout_result_witness:
  "ReadFrom conn_read_deadline_50 [0, 0, 0, 0] 10 TimeoutCase =
     Returns ((0, None, Some (mqttError True (errors_New ''read timed out''))),
              [0, 0, 0, 0], conn_read_deadline_50)
   \<and> Timeout (mqttError True (errors_New ''read timed out'')) = Some True
   \<and> ch_buf (readChan conn_read_deadline_50) = [msg8]"
proof -
  have r: "ReadFrom conn_read_deadline_50 [0, 0, 0, 0] 10 TimeoutCase =
     Returns ((0, None, Some (mqttError True (errors_New ''read timed out''))),
              [0, 0, 0, 0], conn_read_deadline_50)"
    by (simp add: ReadFrom_def conn_read_deadline_50_def SetReadDeadline_def IsZero_def
        Sub_le_0_iff)
  have t: "Timeout (mqttError True (errors_New ''read timed out'')) = Some True" by simp
  have q: "ch_buf (readChan conn_read_deadline_50) = [msg8]"
    by (simp add: conn_read_deadline_50_def SetReadDeadline_def conn_pending_msg_def)
  show ?thesis
    using r t q C10_ReadFrom_timeout_result [OF r t] by simp
qed

section \<open>Construction and deadlines\<close>

text \<open>
  Claim C8: for every client, \<^verbatim>\<open>CreateMQTTConn\<close> returns an adapter and no error.
  The adapter holds the client as it was given (no call, so no subscription, has been
  made on it) and one empty, open queue of capacity 2; its default destination is unset,
  its default QoS is 0 and both deadlines are the zero time.
\<close>

theorem C8_CreateMQTTConn:
  "snd (CreateMQTTConn mqttClient) = None
   \<and> Client (fst (CreateMQTTConn mqttClient)) = mqttClient
   \<and> readChan (fst (CreateMQTTConn mqttClient)) = \<lparr>ch_buf = [], ch_cap = 2, ch_closed = False\<rparr>
   \<and> \<not> defaultTopicSet (fst (CreateMQTTConn mqttClient))
   \<and> defaultTopic (fst (CreateMQTTConn mqttClient)) = []
   \<and> defaultQoS (fst (CreateMQTTConn mqttClient)) = 0
   \<and> IsZero (readDeadline (fst (CreateMQTTConn mqttClient)))
   \<and> IsZero (writeDeadline (fst (CreateMQTTConn mqttClient)))"
  by (simp add: CreateMQTTConn_def make_chan_def IsZero_def)

text \<open>
  Claim C9: for every time \<open>t\<close> and every adapter, \<^verbatim>\<open>SetDeadline(t)\<close> sets the read
  and the write deadline to \<open>t\<close>; \<^verbatim>\<open>SetReadDeadline(t)\<close> sets the read deadline and
  \<^verbatim>\<open>SetWriteDeadline(t)\<close> the write deadline, each leaving the other deadline as it
  was. Each returns nil, and putting the old deadlines back gives the adapter of before:
  nothing else has changed.
\<close>

theorem C9_deadline_setters:
  "fst (SetDeadline conn t) = None
   \<and> readDeadline (snd (SetDeadline conn t)) = t
   \<and> writeDeadline (snd (SetDeadline conn t)) = t
   \<and> snd (SetDeadline conn t)
        \<lparr>readDeadline := readDeadline conn, writeDeadline := writeDeadline conn\<rparr> = conn
   \<and> fst (SetReadDeadline conn t) = None
   \<and> readDeadline (snd (SetReadDeadline conn t)) = t
   \<and> writeDeadline (snd (SetReadDeadline conn t)) = writeDeadline conn
   \<and> snd (SetReadDeadline conn t)\<lparr>readDeadline := readDeadline conn\<rparr> = conn
   \<and> fst (SetWriteDeadline conn t) = None
   \<and> writeDeadline (snd (SetWriteDeadline conn t)) = t
   \<and> readDeadline (snd (SetWriteDeadline conn t)) = readDeadline conn
   \<and> snd (SetWriteDeadline conn t)\<lparr>writeDeadline := writeDeadline conn\<rparr> = conn"
  by (simp add: SetDeadline_def SetReadDeadline_def SetWriteDeadline_def)

end
